theory Spec2Isabelle
  imports Complex_Main
begin

section \<open>Python values, exceptions and dictionaries\<close>

text \<open>
  \<open>BaseException\<close> is an exception that does not derive from \<^verbatim>\<open>Exception\<close>
  (\<^verbatim>\<open>SystemExit\<close>, \<^verbatim>\<open>KeyboardInterrupt\<close>, \<^verbatim>\<open>GeneratorExit\<close>); every other constructor
  is an instance of \<^verbatim>\<open>Exception\<close>. The string is the key, path or message.
\<close>

datatype exn =
    KeyError string
  | TypeError string
  | OSError string
  | OtherException string
  | BaseException string

fun is_Exception :: "exn \<Rightarrow> bool" where
  "is_Exception (BaseException m) = False"
| "is_Exception e = True"

text \<open>
  The harness of \<^verbatim>\<open>harness.py\<close> is dynamically typed: a scaffold may return any object,
  a test case is a dictionary, and the report is whatever \<^verbatim>\<open>json.dump\<close> accepts.
  \<open>pyval\<close> is the part of Python's value space the harness can tell apart. An instance
  of a subclass stands under the constructor of its base type. A float is \<open>PFloat q\<close>
  when it is finite (\<open>q\<close> is the rational it denotes), \<open>PNan\<close>, or \<open>PInf s\<close>, the
  infinity that is negative when \<open>s\<close> holds. Dictionaries keep their insertion order,
  so they are association lists; their keys are strings, and strings are well-formed
  text. \<open>POpaque t c\<close> stands for an object that is no instance of \<^verbatim>\<open>NoneType\<close>,
  \<^verbatim>\<open>bool\<close>, \<^verbatim>\<open>int\<close>, \<^verbatim>\<open>float\<close>, \<^verbatim>\<open>str\<close>, \<^verbatim>\<open>list\<close>, \<^verbatim>\<open>tuple\<close> or \<^verbatim>\<open>dict\<close>: \<open>t\<close> is its
  truth value and \<open>c\<close> is what testing \<^verbatim>\<open>x == 1\<close> gives, a truth value or the exception
  that the comparison (or the truth test of its result) raises.
\<close>

datatype pyval =
    PNone
  | PBool bool
  | PInt int
  | PFloat rat
  | PNan
  | PInf bool
  | PStr string
  | PList "pyval list"
  | PTuple "pyval list"
  | PDict "(string \<times> pyval) list"
  | POpaque bool "exn + bool"

type_synonym pydict = "(string \<times> pyval) list"

text \<open>Truth value testing, \<^verbatim>\<open>bool(v)\<close>.\<close>

fun truthy :: "pyval \<Rightarrow> bool" where
  "truthy PNone = False"
| "truthy (PBool b) = b"
| "truthy (PInt i) = (i \<noteq> 0)"
| "truthy (PFloat q) = (q \<noteq> 0)"
| "truthy PNan = True"
| "truthy (PInf s) = True"
| "truthy (PStr s) = (s \<noteq> [])"
| "truthy (PList xs) = (xs \<noteq> [])"
| "truthy (PTuple xs) = (xs \<noteq> [])"
| "truthy (PDict kvs) = (kvs \<noteq> [])"
| "truthy (POpaque t c) = t"

text \<open>
  \<^verbatim>\<open>v == 1\<close> where it yields a truth value: true for \<^verbatim>\<open>1\<close>, \<^verbatim>\<open>1.0\<close>, \<^verbatim>\<open>True\<close> and
  for an object whose own comparison says so.
\<close>

fun eq_one :: "pyval \<Rightarrow> bool" where
  "eq_one (PBool b) = b"
| "eq_one (PInt i) = (i = 1)"
| "eq_one (PFloat q) = (q = 1)"
| "eq_one (POpaque t c) = (c = Inr True)"
| "eq_one v = False"

text \<open>
  The literal pattern \<^verbatim>\<open>case 1\<close> of a \<^verbatim>\<open>match\<close> statement evaluates
  \<^verbatim>\<open>subject == 1\<close> and tests the result; only an object's own comparison can raise.
\<close>

fun match_one :: "pyval \<Rightarrow> exn + bool" where
  "match_one (POpaque t c) = c"
| "match_one v = Inr (eq_one v)"

text \<open>\<^verbatim>\<open>isinstance(v, (int, float))\<close>; \<^verbatim>\<open>bool\<close> is a subclass of \<^verbatim>\<open>int\<close>.\<close>

fun is_number :: "pyval \<Rightarrow> bool" where
  "is_number (PBool b) = True"
| "is_number (PInt i) = True"
| "is_number (PFloat q) = True"
| "is_number PNan = True"
| "is_number (PInf s) = True"
| "is_number v = False"

text \<open>Subscription \<^verbatim>\<open>d[k]\<close> raises \<^verbatim>\<open>KeyError\<close> on a missing key; \<^verbatim>\<open>d.get(k, default)\<close> does not.\<close>

definition getitem :: "pydict \<Rightarrow> string \<Rightarrow> exn + pyval" where
  "getitem d k = (case map_of d k of None \<Rightarrow> Inl (KeyError k) | Some v \<Rightarrow> Inr v)"

definition get_default :: "pydict \<Rightarrow> string \<Rightarrow> pyval \<Rightarrow> pyval" where
  "get_default d k fallback = (case map_of d k of None \<Rightarrow> fallback | Some v \<Rightarrow> v)"

section \<open>The world outside the interpreter\<close>

text \<open>
  What the harness does to its surroundings is recorded in a \<open>world\<close>: the pieces written
  to standard output in order (an f-string field is kept as the value it formats,
  \<open>Newline\<close> is the line end \<^verbatim>\<open>print\<close> appends unless \<^verbatim>\<open>end=""\<close>), the calls made on
  \<^verbatim>\<open>multiprocessing.Process\<close> objects in order, and the file system: the directories
  that exist and the contents of the regular files. A file written by \<^verbatim>\<open>json.dump\<close>
  holds the JSON text of a value (\<open>Json v\<close>), or a broken prefix of it when
  serialisation raised half way (\<open>Truncated\<close>). Standard output is taken as unbuffered,
  and only what the harness itself prints is recorded, not the output of scaffold code.
\<close>

datatype piece = Lit string | Fmt pyval | FmtExn exn | Newline

datatype proc_event = Start | Join_timeout int | Terminate | Join

datatype file_content = Json pyval | Truncated

record world =
  stdout :: "piece list"
  processes :: "proc_event list"
  dirs :: "string set"
  files :: "string \<rightharpoonup> file_content"

definition py_print :: "piece list \<Rightarrow> bool \<Rightarrow> world \<Rightarrow> world" where
  "py_print ps newline w =
     w\<lparr>stdout := stdout w @ ps @ (if newline then [Newline] else [])\<rparr>"

definition proc_calls :: "proc_event list \<Rightarrow> world \<Rightarrow> world" where
  "proc_calls evs w = w\<lparr>processes := processes w @ evs\<rparr>"

section \<open>The scaffold and the worker\<close>

text \<open>
  \<^verbatim>\<open>AbstractTestScaffold\<close> has two abstract methods. A call into scaffold code can return
  a value, raise, take the whole worker process down (a segmentation fault,
  \<^verbatim>\<open>os._exit\<close>, the OOM killer) or never come back; the first three happen after some
  time, counted in the units of the timeout.
\<close>

datatype 'a call = Returns nat 'a | Raises nat exn | Dies nat | Hangs

text \<open>
  What \<^verbatim>\<open>multiprocessing.Queue\<close> does with an object the worker puts. \<^verbatim>\<open>put\<close> hands it
  to a feeder thread, which pickles it and writes it to a pipe:
  \<^item> \<open>Arrives\<close>: the pickle fits into the pipe, and \<^verbatim>\<open>get\<close> in the parent rebuilds the
    object;
  \<^item> \<open>Dropped\<close>: pickling fails in the feeder thread, which reports it on standard error
    and sends nothing;
  \<^item> \<open>Blocks\<close>: the pickle is larger than the pipe's buffer, so the feeder thread waits
    for a reader and the worker, which joins that thread when it exits, stays alive;
  \<^item> \<open>Arrives_broken e\<close>: the pickle arrives, and rebuilding the object in the parent
    raises \<open>e\<close>.
\<close>

datatype delivery = Arrives | Dropped | Blocks | Arrives_broken exn

text \<open>
  A scaffold as its worker process runs it. The first two fields are the methods of
  the class. The other two record what the code and the values of the scaffold decide
  but the values of this model do not show: how an object it returns travels through
  the result queue, and whether the worker that runs a test keeps running when
  \<^verbatim>\<open>SIGTERM\<close> reaches it (the signal is ignored or handled; never so where
  \<^verbatim>\<open>terminate\<close> is \<^verbatim>\<open>TerminateProcess\<close>).
\<close>

record scaffold =
  setup_method :: "pydict \<Rightarrow> pyval call"
  run_test_case :: "pydict \<Rightarrow> pyval \<Rightarrow> pyval call"
  delivery :: "pyval \<Rightarrow> delivery"
  survives_terminate :: "pydict \<Rightarrow> bool"

text \<open>
  How the worker process ends when nobody interferes: the body of \<^verbatim>\<open>run_test\<close> returns
  and the process exits, an exception leaves the body (the process prints a traceback
  and exits with status 1), the process dies, or it never ends. \<open>queue\<close> is what
  \<^verbatim>\<open>get\<close> will find, in order: an object, or the exception that rebuilding it raises.
\<close>

datatype ending = Returned | Propagated exn | Died | Never_ends

record worker =
  ending :: ending
  elapsed :: nat
  queue :: "(exn + pyval) list"
  printed :: "piece list"

text \<open>
  \<^verbatim>\<open>run_test\<close>, lines 25 to 33. The call of \<^verbatim>\<open>setup\<close> stands before the \<^verbatim>\<open>try\<close>; the
  handler is \<^verbatim>\<open>except Exception\<close>. \<^verbatim>\<open>put\<close> itself never raises; the \<^verbatim>\<open>0\<close> the handler
  puts always arrives.
\<close>

definition run_test :: "scaffold \<Rightarrow> pydict \<Rightarrow> (exn + pyval) list \<Rightarrow> worker" where
  "run_test scaffold test_case result_queue =
     (case setup_method scaffold test_case of
        Hangs \<Rightarrow>
          \<lparr>ending = Never_ends, elapsed = 0, queue = result_queue, printed = []\<rparr>
      | Dies d \<Rightarrow>
          \<lparr>ending = Died, elapsed = d, queue = result_queue, printed = []\<rparr>
      | Raises d exception \<Rightarrow>
          \<lparr>ending = Propagated exception, elapsed = d, queue = result_queue, printed = []\<rparr>
      | Returns d environment \<Rightarrow>
          (case run_test_case scaffold test_case environment of
             Returns d' result \<Rightarrow>
               (case delivery scaffold result of
                  Arrives \<Rightarrow>
                    \<lparr>ending = Returned, elapsed = d + d',
                     queue = result_queue @ [Inr result], printed = []\<rparr>
                | Arrives_broken e \<Rightarrow>
                    \<lparr>ending = Returned, elapsed = d + d',
                     queue = result_queue @ [Inl e], printed = []\<rparr>
                | Dropped \<Rightarrow>
                    \<lparr>ending = Returned, elapsed = d + d',
                     queue = result_queue, printed = []\<rparr>
                | Blocks \<Rightarrow>
                    \<lparr>ending = Never_ends, elapsed = d + d',
                     queue = result_queue, printed = []\<rparr>)
           | Raises d' exception \<Rightarrow>
               if is_Exception exception
               then \<lparr>ending = Returned, elapsed = d + d',
                     queue = result_queue @ [Inr (PInt 0)],
                     printed = [Lit ''Exception during test: '', FmtExn exception, Newline]\<rparr>
               else \<lparr>ending = Propagated exception, elapsed = d + d',
                     queue = result_queue, printed = []\<rparr>
           | Dies d' \<Rightarrow>
               \<lparr>ending = Died, elapsed = d + d', queue = result_queue, printed = []\<rparr>
           | Hangs \<Rightarrow>
               \<lparr>ending = Never_ends, elapsed = d, queue = result_queue, printed = []\<rparr>))"

section \<open>The timeout supervisor\<close>

text \<open>
  \<^verbatim>\<open>p.join(timeout)\<close> comes back when the worker has exited or \<open>timeout\<close> units have
  passed; \<^verbatim>\<open>p.is_alive()\<close> then holds when the worker never ends or needs longer.
  A worker that ends exactly at the deadline counts as exited.
\<close>

definition is_alive :: "worker \<Rightarrow> int \<Rightarrow> bool" where
  "is_alive p timeout = (ending p = Never_ends \<or> timeout < int (elapsed p))"

text \<open>
  \<^verbatim>\<open>run_test_in_process\<close>, lines 35 to 46. \<open>None\<close> says that the call never returns.
  \<^verbatim>\<open>p.terminate()\<close> sends \<^verbatim>\<open>SIGTERM\<close> and the \<^verbatim>\<open>p.join()\<close> after it has no timeout:
  it returns at once when the signal ends the worker, when the worker ends by itself
  otherwise, and never when the worker survives the signal and never ends. What the
  worker printed reaches the inherited standard output when the worker got that far.
  \<^verbatim>\<open>result_queue.get()\<close> raises what rebuilding the object raises.
\<close>

definition run_test_in_process ::
  "scaffold \<Rightarrow> pydict \<Rightarrow> int \<Rightarrow> world \<Rightarrow> ((exn + pyval) \<times> world) option" where
  "run_test_in_process interpreter test_case timeout w =
     (let result_queue = [];
          p = run_test interpreter test_case result_queue;
          w1 = proc_calls [Start, Join_timeout timeout] w
      in if is_alive p timeout
         then if \<not> survives_terminate interpreter test_case
              then Some (Inr PNone, proc_calls [Terminate, Join] w1)
              else if ending p = Never_ends
              then None
              else Some (Inr PNone,
                         proc_calls [Terminate, Join] (py_print (printed p) False w1))
         else let w2 = py_print (printed p) False w1
              in if queue p \<noteq> []
                 then (case hd (queue p) of
                         Inl e \<Rightarrow> Some (Inl e, w2)
                       | Inr v \<Rightarrow> Some (Inr v, w2))
                 else Some (Inr (PInt 0), w2))"

section \<open>The orchestrator\<close>

text \<open>
  \<^verbatim>\<open>run_test_wrapper\<close>, lines 48 to 59. \<^verbatim>\<open>asyncio.to_thread\<close> is awaited at once, so the
  coroutine is the sequential composition of its steps; it does not return when the
  supervisor does not, and an exception of the supervisor or of the comparison in
  \<^verbatim>\<open>case 1\<close> leaves it.
\<close>

definition run_test_wrapper ::
  "scaffold \<Rightarrow> pydict \<Rightarrow> int \<Rightarrow> world \<Rightarrow> ((exn + int) \<times> world) option" where
  "run_test_wrapper interpreter test_case timeout w =
     (case getitem test_case ''srcfile'' of
        Inl e \<Rightarrow> Some (Inl e, w)
      | Inr srcfile \<Rightarrow>
          (case run_test_in_process interpreter test_case timeout
                  (py_print [Lit ''Running '', Fmt srcfile, Lit ''... ''] False w) of
             None \<Rightarrow> None
           | Some (Inl e, w') \<Rightarrow> Some (Inl e, w')
           | Some (Inr r, w') \<Rightarrow>
               if r = PNone then Some (Inr 0, py_print [Lit ''TIMED OUT''] True w')
               else (case match_one r of
                       Inl e \<Rightarrow> Some (Inl e, w')
                     | Inr matches \<Rightarrow>
                         if matches then Some (Inr 1, py_print [Lit ''PASSED''] True w')
                         else Some (Inr 0, py_print [Lit ''FAILED''] True w'))))"

text \<open>\<^verbatim>\<open>get_score\<close>, lines 111 to 113: \<^verbatim>\<open>filter\<close> with a predicate that may raise.\<close>

fun filter_py :: "('a \<Rightarrow> exn + pyval) \<Rightarrow> 'a list \<Rightarrow> exn + 'a list" where
  "filter_py f [] = Inr []"
| "filter_py f (x # xs) =
     (case f x of
        Inl e \<Rightarrow> Inl e
      | Inr v \<Rightarrow>
          (case filter_py f xs of
             Inl e \<Rightarrow> Inl e
           | Inr ys \<Rightarrow> Inr (if truthy v then x # ys else ys)))"

definition get_score :: "pydict list \<Rightarrow> exn + nat" where
  "get_score results =
     (case filter_py (\<lambda>result. getitem result ''score'') results of
        Inl e \<Rightarrow> Inl e
      | Inr passed \<Rightarrow> Inr (length passed))"

text \<open>
  The list comprehension of \<^verbatim>\<open>run_all_tests\<close>, lines 68 to 78: the items of the
  dictionary display are evaluated in the order written, for one test after the other.
\<close>

fun comprehension ::
  "scaffold \<Rightarrow> int \<Rightarrow> bool \<Rightarrow> pydict list \<Rightarrow> world \<Rightarrow> ((exn + pydict list) \<times> world) option" where
  "comprehension interpreter timeout_per_test zero_credit [] w = Some (Inr [], w)"
| "comprehension interpreter timeout_per_test zero_credit (test # tests) w =
     (case getitem test ''name'' of
        Inl e \<Rightarrow> Some (Inl e, w)
      | Inr name \<Rightarrow>
          (case (if \<not> zero_credit
                 then run_test_wrapper interpreter test timeout_per_test w
                 else Some (Inr 0, w)) of
             None \<Rightarrow> None
           | Some (Inl e, w1) \<Rightarrow> Some (Inl e, w1)
           | Some (Inr score, w1) \<Rightarrow>
               (case comprehension interpreter timeout_per_test zero_credit tests w1 of
                  None \<Rightarrow> None
                | Some (Inl e, w2) \<Rightarrow> Some (Inl e, w2)
                | Some (Inr rest, w2) \<Rightarrow>
                    Some (Inr ([(''name'', name),
                                (''score'', PInt score),
                                (''max_score'', PInt 1),
                                (''visibility'',
                                   PStr (if truthy (get_default test ''visible'' (PBool False))
                                         then ''visible'' else ''after_published''))]
                               # rest), w2))))"

text \<open>
  \<^verbatim>\<open>run_all_tests\<close>, lines 62 to 80. A caller that leaves out the last two arguments
  gets \<open>timeout_per_test = 5\<close> and \<open>zero_credit = False\<close>.
\<close>

definition run_all_tests ::
  "scaffold \<Rightarrow> pydict list \<Rightarrow> int \<Rightarrow> bool \<Rightarrow> world \<Rightarrow> ((exn + pydict list) \<times> world) option" where
  "run_all_tests interpreter tests timeout_per_test zero_credit w =
     (case comprehension interpreter timeout_per_test zero_credit tests
             (py_print [Lit ''Running '', Fmt (PInt (int (length tests))), Lit '' tests...'']
                True w) of
        None \<Rightarrow> None
      | Some (Inl e, w1) \<Rightarrow> Some (Inl e, w1)
      | Some (Inr results, w1) \<Rightarrow>
          (case get_score results of
             Inl e \<Rightarrow> Some (Inl e, w1)
           | Inr passed \<Rightarrow>
               Some (Inr results,
                     py_print [Fmt (PInt (int passed)), Lit ''/'',
                               Fmt (PInt (int (length tests))), Lit '' tests passed.'']
                       True w1)))"

section \<open>The report writer\<close>

text \<open>\<^verbatim>\<open>format_gradescope_output\<close>, lines 83 to 87.\<close>

definition format_gradescope_output :: "pyval \<Rightarrow> pyval" where
  "format_gradescope_output results =
     (if is_number results then PDict [(''score'', results)]
      else PDict [(''tests'', results)])"

text \<open>
  \<^verbatim>\<open>json.dump\<close> (with \<^verbatim>\<open>allow_nan\<close> left at its default) writes \<^verbatim>\<open>None\<close>, every number
  including \<^verbatim>\<open>NaN\<close> and the infinities, strings, and lists, tuples and dictionaries of
  such; on any other object it raises \<^verbatim>\<open>TypeError\<close>, after it has written what came
  before.
\<close>

primrec serializable :: "pyval \<Rightarrow> bool" where
  "serializable PNone = True"
| "serializable (PBool b) = True"
| "serializable (PInt i) = True"
| "serializable (PFloat q) = True"
| "serializable PNan = True"
| "serializable (PInf s) = True"
| "serializable (PStr s) = True"
| "serializable (PList xs) = list_all id (map serializable xs)"
| "serializable (PTuple xs) = list_all id (map serializable xs)"
| "serializable (PDict kvs) = list_all snd (map (map_prod id serializable) kvs)"
| "serializable (POpaque t c) = False"

definition exists :: "world \<Rightarrow> string \<Rightarrow> bool" where
  "exists w path = (path \<in> dirs w \<or> files w path \<noteq> None)"

definition makedirs :: "string \<Rightarrow> world \<Rightarrow> world" where
  "makedirs path w = w\<lparr>dirs := insert path (dirs w)\<rparr>"

text \<open>
  \<^verbatim>\<open>write_gradescope_output\<close>, lines 90 to 98. Opening \<^verbatim>\<open>path/results.json\<close> for writing
  fails when \<open>path\<close> is a regular file or when the target is a directory; it truncates
  the file otherwise. Failures for want of permission or space are not part of the
  model.
\<close>

definition write_gradescope_output :: "pyval \<Rightarrow> bool \<Rightarrow> world \<Rightarrow> (exn + unit) \<times> world" where
  "write_gradescope_output score is_prod w =
     (let path = (if is_prod then ''/autograder/results'' else ''.'');
          data = format_gradescope_output score;
          w1 = (if \<not> exists w path
                then makedirs path (py_print [Lit path, Lit '' does not exist, creating...''] True w)
                else w);
          target = path @ ''/results.json''
      in if path \<notin> dirs w1 \<or> target \<in> dirs w1 then (Inl (OSError target), w1)
         else if serializable data
              then (Inr (), w1\<lparr>files := (files w1)(target \<mapsto> Json data)\<rparr>)
              else (Inl (TypeError ''Object is not JSON serializable''),
                    w1\<lparr>files := (files w1)(target \<mapsto> Truncated)\<rparr>))"

text \<open>\<^verbatim>\<open>write_gradescope_output_failure\<close>, lines 100 to 109.\<close>

definition write_gradescope_output_failure :: "pyval \<Rightarrow> bool \<Rightarrow> world \<Rightarrow> (exn + unit) \<times> world" where
  "write_gradescope_output_failure msg is_prod w =
     (let results = PList [PDict [(''score'', PInt 0),
                                  (''status'', PStr ''failed''),
                                  (''name'', PStr ''Pre-launch check''),
                                  (''output'', msg)]]
      in write_gradescope_output results is_prod w)"

section \<open>Concrete scaffolds, test cases and worlds\<close>

text \<open>
  Inputs at which the definitions are evaluated: the test case of the specification's
  first scenario, a world with nothing printed or spawned yet whose current directory
  exists, and scaffolds that return a given value, raise in one of their two methods,
  block forever, or take the worker down. Their results arrive and \<^verbatim>\<open>SIGTERM\<close> ends
  their workers, except that \<open>returning_unpicklable\<close> returns an object the queue
  drops, \<open>returning_large\<close> one that does not fit the pipe, and \<open>stubborn\<close> blocks forever
  with \<^verbatim>\<open>SIGTERM\<close> ignored.
\<close>

definition example_test :: pydict where
  "example_test = [(''name'', PStr ''t1''), (''srcfile'', PStr ''a.py''), (''visible'', PBool True)]"

definition empty_world :: world where
  "empty_world = \<lparr>stdout = [], processes = [], dirs = {''.''}, files = Map.empty\<rparr>"

definition returning :: "pyval \<Rightarrow> scaffold" where
  "returning v = \<lparr>setup_method = (\<lambda>test_case. Returns 0 PNone),
                  run_test_case = (\<lambda>test_case environment. Returns 1 v),
                  delivery = (\<lambda>result. Arrives),
                  survives_terminate = (\<lambda>test_case. False)\<rparr>"

definition returning_unpicklable :: "pyval \<Rightarrow> scaffold" where
  "returning_unpicklable v = \<lparr>setup_method = (\<lambda>test_case. Returns 0 PNone),
                  run_test_case = (\<lambda>test_case environment. Returns 1 v),
                  delivery = (\<lambda>result. Dropped),
                  survives_terminate = (\<lambda>test_case. False)\<rparr>"


definition setup_raising :: "exn \<Rightarrow> scaffold" where
  "setup_raising e = \<lparr>setup_method = (\<lambda>test_case. Raises 0 e),
                      run_test_case = (\<lambda>test_case environment. Returns 1 (PInt 1)),
                      delivery = (\<lambda>result. Arrives),
                      survives_terminate = (\<lambda>test_case. False)\<rparr>"


definition hanging :: scaffold where
  "hanging = \<lparr>setup_method = (\<lambda>test_case. Returns 0 PNone),
              run_test_case = (\<lambda>test_case environment. Hangs),
              delivery = (\<lambda>result. Arrives),
              survives_terminate = (\<lambda>test_case. False)\<rparr>"

definition stubborn :: scaffold where
  "stubborn = \<lparr>setup_method = (\<lambda>test_case. Returns 0 PNone),
               run_test_case = (\<lambda>test_case environment. Hangs),
               delivery = (\<lambda>result. Arrives),
               survives_terminate = (\<lambda>test_case. True)\<rparr>"

definition crashing :: scaffold where
  "crashing = \<lparr>setup_method = (\<lambda>test_case. Returns 0 PNone),
               run_test_case = (\<lambda>test_case environment. Dies 1),
               delivery = (\<lambda>result. Arrives),
               survives_terminate = (\<lambda>test_case. False)\<rparr>"

definition example_tests :: "pydict list" where
  "example_tests =
     [[(''name'', PStr ''t1''), (''srcfile'', PStr ''a.py''), (''visible'', PBool True)],
      [(''name'', PStr ''t2''), (''srcfile'', PStr ''b.py'')]]"

definition example_results :: "pydict list" where
  "example_results =
     [[(''name'', PStr ''t1''), (''score'', PInt 1), (''max_score'', PInt 1),
       (''visibility'', PStr ''visible'')],
      [(''name'', PStr ''t2''), (''score'', PInt 0), (''max_score'', PInt 1),
       (''visibility'', PStr ''after_published'')],
      [(''name'', PStr ''t3''), (''score'', PInt 1), (''max_score'', PInt 1),
       (''visibility'', PStr ''after_published'')]]"

section \<open>The aggregator in the specification's words\<close>

text \<open>
  The specification describes \<^verbatim>\<open>get_score\<close> twice: as the count of records with nonzero
  score, and as the number of records with score == 1. Both are written down here as
  the specification has them, to be compared with \<open>get_score\<close>; \<open>eq_zero\<close> is
  \<^verbatim>\<open>v == 0\<close> on numbers.
\<close>

fun eq_zero :: "pyval \<Rightarrow> bool" where
  "eq_zero (PBool b) = (\<not> b)"
| "eq_zero (PInt i) = (i = 0)"
| "eq_zero (PFloat q) = (q = 0)"
| "eq_zero v = False"

definition spec_nonzero_count :: "pydict list \<Rightarrow> nat" where
  "spec_nonzero_count results =
     length (filter (\<lambda>result. case map_of result ''score'' of
                                 None \<Rightarrow> False | Some v \<Rightarrow> \<not> eq_zero v) results)"

definition spec_ones_count :: "pydict list \<Rightarrow> nat" where
  "spec_ones_count results =
     length (filter (\<lambda>result. case map_of result ''score'' of
                                 None \<Rightarrow> False | Some v \<Rightarrow> eq_one v) results)"

section \<open>What one test yields\<close>

text \<open>
  Whether \<^verbatim>\<open>run_test_in_process\<close> returns, and what, depends on the scaffold, the test
  case and the timeout only, not on the world.
\<close>

lemma run_test_in_process_result:
  "map_option fst (run_test_in_process interpreter test_case timeout w) =
     (case setup_method interpreter test_case of
        Returns d environment \<Rightarrow>
          (case run_test_case interpreter test_case environment of
             Returns d' result \<Rightarrow>
               (case delivery interpreter result of
                  Arrives \<Rightarrow>
                    Some (if int (d + d') \<le> timeout then Inr result else Inr PNone)
                | Arrives_broken e \<Rightarrow>
                    Some (if int (d + d') \<le> timeout then Inl e else Inr PNone)
                | Dropped \<Rightarrow>
                    Some (if int (d + d') \<le> timeout then Inr (PInt 0) else Inr PNone)
                | Blocks \<Rightarrow>
                    if survives_terminate interpreter test_case then None
                    else Some (Inr PNone))
           | Raises d' exception \<Rightarrow>
               Some (if int (d + d') \<le> timeout then Inr (PInt 0) else Inr PNone)
           | Dies d' \<Rightarrow>
               Some (if int (d + d') \<le> timeout then Inr (PInt 0) else Inr PNone)
           | Hangs \<Rightarrow>
               if survives_terminate interpreter test_case then None else Some (Inr PNone))
      | Raises d exception \<Rightarrow> Some (if int d \<le> timeout then Inr (PInt 0) else Inr PNone)
      | Dies d \<Rightarrow> Some (if int d \<le> timeout then Inr (PInt 0) else Inr PNone)
      | Hangs \<Rightarrow> if survives_terminate interpreter test_case then None else Some (Inr PNone))"
  by (simp add: run_test_in_process_def run_test_def is_alive_def Let_def
      split: call.splits delivery.splits)

lemma run_test_wrapper_result:
  assumes "getitem test_case ''srcfile'' = Inr srcfile"
  shows "map_option fst (run_test_wrapper interpreter test_case timeout w) =
     (case setup_method interpreter test_case of
        Returns d environment \<Rightarrow>
          (case run_test_case interpreter test_case environment of
             Returns d' result \<Rightarrow>
               (case delivery interpreter result of
                  Arrives \<Rightarrow>
                    Some (if int (d + d') \<le> timeout
                          then (case match_one result of
                                  Inl e \<Rightarrow> Inl e
                                | Inr matches \<Rightarrow> Inr (if matches then 1 else 0))
                          else Inr 0)
                | Arrives_broken e \<Rightarrow>
                    Some (if int (d + d') \<le> timeout then Inl e else Inr 0)
                | Dropped \<Rightarrow> Some (Inr 0)
                | Blocks \<Rightarrow>
                    if survives_terminate interpreter test_case then None
                    else Some (Inr 0))
           | Raises d' exception \<Rightarrow> Some (Inr 0)
           | Dies d' \<Rightarrow> Some (Inr 0)
           | Hangs \<Rightarrow>
               if survives_terminate interpreter test_case then None else Some (Inr 0))
      | Raises d exception \<Rightarrow> Some (Inr 0)
      | Dies d \<Rightarrow> Some (Inr 0)
      | Hangs \<Rightarrow> if survives_terminate interpreter test_case then None else Some (Inr 0))"
proof -
  let ?w0 = "py_print [Lit ''Running '', Fmt srcfile, Lit ''... ''] False w"
  have wrap: "map_option fst (run_test_wrapper interpreter test_case timeout w) =
          (case map_option fst (run_test_in_process interpreter test_case timeout ?w0) of
             None \<Rightarrow> None
           | Some (Inl e) \<Rightarrow> Some (Inl e)
           | Some (Inr r) \<Rightarrow>
               Some (if r = PNone then Inr 0
                     else case match_one r of
                            Inl e \<Rightarrow> Inl e
                          | Inr matches \<Rightarrow> Inr (if matches then 1 else 0)))"
    by (simp add: run_test_wrapper_def assms split: option.splits sum.splits prod.splits)
  show ?thesis
    unfolding wrap run_test_in_process_result
    by (simp split: call.splits delivery.splits)
qed

lemma run_test_wrapper_keyerror:
  "map_of test_case ''srcfile'' = None \<Longrightarrow>
   run_test_wrapper interpreter test_case timeout w = Some (Inl (KeyError ''srcfile''), w)"
  by (simp add: run_test_wrapper_def getitem_def)

lemma run_test_wrapper_world_independent:
  "map_option fst (run_test_wrapper interpreter test_case timeout w) =
   map_option fst (run_test_wrapper interpreter test_case timeout w')"
proof (cases "map_of test_case ''srcfile''")
  case None
  then show ?thesis by (simp add: run_test_wrapper_keyerror)
next
  case (Some srcfile)
  then have "getitem test_case ''srcfile'' = Inr srcfile" by (simp add: getitem_def)
  then show ?thesis by (simp add: run_test_wrapper_result)
qed

lemma run_test_wrapper_zero_or_one:
  "run_test_wrapper interpreter test_case timeout w = Some (Inr s, w') \<Longrightarrow> s = 0 \<or> s = 1"
  by (auto simp: run_test_wrapper_def split: sum.splits prod.splits option.splits if_splits)

text \<open>
  C1. An exception raised by \<^verbatim>\<open>setup\<close> in the worker is claimed to be caught inside
  \<^verbatim>\<open>run_test\<close>, logged, and answered with a 0 on the result queue, as one raised by
  \<^verbatim>\<open>run_test_case\<close> is. The code calls \<^verbatim>\<open>setup\<close> before the \<^verbatim>\<open>try\<close>: for a scaffold
  whose \<^verbatim>\<open>setup\<close> raises, the exception leaves \<^verbatim>\<open>run_test\<close>, nothing is printed and the
  queue stays empty.
\<close>

theorem run_test_setup_raises_propagates:
  "run_test (setup_raising (OtherException ''boom'')) example_test [] =
     \<lparr>ending = Propagated (OtherException ''boom''), elapsed = 0, queue = [], printed = []\<rparr>"
  by (simp add: run_test_def setup_raising_def)

text \<open>The sibling call: an \<^verbatim>\<open>Exception\<close> of \<^verbatim>\<open>run_test_case\<close> is caught, logged and answered.\<close>

lemma run_test_catches_run_exception:
  assumes "setup_method scaffold test_case = Returns d environment"
    and "run_test_case scaffold test_case environment = Raises d' exception"
    and "is_Exception exception"
  shows "run_test scaffold test_case [] =
           \<lparr>ending = Returned, elapsed = d + d', queue = [Inr (PInt 0)],
            printed = [Lit ''Exception during test: '', FmtExn exception, Newline]\<rparr>"
  using assms by (simp add: run_test_def)




text \<open>
  The deadline: a worker that \<^verbatim>\<open>SIGTERM\<close> ends is terminated and joined, and the test is
  reported as timed out; the supervisor fails to return exactly when the worker never
  ends and survives the signal.
\<close>

lemma timeout_reaps_when_terminate_kills:
  assumes "is_alive (run_test interpreter test_case []) timeout"
    and "\<not> survives_terminate interpreter test_case"
  shows "run_test_in_process interpreter test_case timeout w =
           Some (Inr PNone,
                 w\<lparr>processes := processes w @ [Start, Join_timeout timeout, Terminate, Join]\<rparr>)"
    and "getitem test_case ''srcfile'' = Inr srcfile \<Longrightarrow>
         run_test_wrapper interpreter test_case timeout w =
           Some (Inr 0,
                 w\<lparr>stdout := stdout w @ [Lit ''Running '', Fmt srcfile, Lit ''... '',
                                          Lit ''TIMED OUT'', Newline],
                   processes := processes w @ [Start, Join_timeout timeout, Terminate, Join]\<rparr>)"
  using assms
  by (simp_all add: run_test_wrapper_def run_test_in_process_def Let_def py_print_def
      proc_calls_def)

lemma supervisor_never_returns_iff:
  "run_test_in_process interpreter test_case timeout w = None \<longleftrightarrow>
     ending (run_test interpreter test_case []) = Never_ends \<and>
     survives_terminate interpreter test_case"
  by (auto simp: run_test_in_process_def Let_def is_alive_def split: sum.splits)

text \<open>
  C3. A worker still alive after \<open>timeout\<close> is claimed to be forcefully terminated,
  reaped, and reported as timed out with score 0. The comment on line 41 says
  \<^verbatim>\<open>forcefully terminate the process\<close>, but \<^verbatim>\<open>terminate\<close> sends \<^verbatim>\<open>SIGTERM\<close>, and
  the \<^verbatim>\<open>join\<close> of line 42 waits without limit: for a scaffold that blocks forever
  with \<^verbatim>\<open>SIGTERM\<close> ignored, the worker is alive at the deadline and neither the
  supervisor nor the wrapper nor the suite ever returns.
\<close>

theorem sigterm_ignored_supervisor_never_returns:
  "is_alive (run_test stubborn example_test []) 5 \<and>
   run_test_in_process stubborn example_test 5 empty_world = None \<and>
   run_test_wrapper stubborn example_test 5 empty_world = None \<and>
   run_all_tests stubborn [example_test] 5 False empty_world = None"
  by (simp add: run_all_tests_def run_test_wrapper_def run_test_in_process_def run_test_def
      is_alive_def Let_def stubborn_def example_test_def getitem_def)

text \<open>
  C5. A worker that has exited by the deadline and left the result queue empty makes
  \<^verbatim>\<open>run_test_in_process\<close> return 0; the wrapper returns the score 0 normally, prints
  \<^verbatim>\<open>FAILED\<close>, and no exception arises in the harness.
\<close>

theorem silent_exit_is_failed:
  assumes "\<not> is_alive (run_test interpreter test_case []) timeout"
    and "queue (run_test interpreter test_case []) = []"
  shows "map_option fst (run_test_in_process interpreter test_case timeout w) =
           Some (Inr (PInt 0))
       \<and> (getitem test_case ''srcfile'' = Inr srcfile \<longrightarrow>
            run_test_wrapper interpreter test_case timeout w =
              Some (Inr 0,
               w\<lparr>stdout := stdout w @ [Lit ''Running '', Fmt srcfile, Lit ''... '',
                                        Lit ''FAILED'', Newline],
                 processes := processes w @ [Start, Join_timeout timeout]\<rparr>))"
proof -
  have p: "printed (run_test interpreter test_case []) = []"
    using assms(2)
    by (auto simp: run_test_def split: call.splits delivery.splits if_splits)
  show ?thesis
    using assms p
    by (simp add: run_test_wrapper_def run_test_in_process_def Let_def py_print_def
        proc_calls_def)
qed

theorem silent_exit_is_failed_witness:
  "\<not> is_alive (run_test crashing example_test []) 5 \<and>
   queue (run_test crashing example_test []) = [] \<and>
   map_option fst (run_test_in_process crashing example_test 5 empty_world) =
     Some (Inr (PInt 0)) \<and>
   run_test_wrapper crashing example_test 5 empty_world =
     Some (Inr 0, empty_world\<lparr>stdout := [Lit ''Running '', Fmt (PStr ''a.py''), Lit ''... '',
                                      Lit ''FAILED'', Newline],
                         processes := [Start, Join_timeout 5]\<rparr>) \<and>
   queue (run_test (returning_unpicklable (PInt 1)) example_test []) = [] \<and>
   map_option fst (run_test_wrapper (returning_unpicklable (PInt 1)) example_test 5 empty_world) =
     Some (Inr 0)"
proof -
  have h: "\<not> is_alive (run_test crashing example_test []) 5"
    by (simp add: is_alive_def run_test_def crashing_def)
  have q: "queue (run_test crashing example_test []) = []"
    by (simp add: run_test_def crashing_def)
  have h': "\<not> is_alive (run_test (returning_unpicklable (PInt 1)) example_test []) 5"
    by (simp add: is_alive_def run_test_def returning_unpicklable_def)
  have q': "queue (run_test (returning_unpicklable (PInt 1)) example_test []) = []"
    by (simp add: run_test_def returning_unpicklable_def)
  have s: "getitem example_test ''srcfile'' = Inr (PStr ''a.py'')"
    by (simp add: getitem_def example_test_def)
  show ?thesis
    using h q q' s silent_exit_is_failed [OF h q, of empty_world "PStr ''a.py''"]
      silent_exit_is_failed [OF h' q', of empty_world "PStr ''a.py''"]
    by (simp add: empty_world_def)
qed

section \<open>The aggregator\<close>

lemma filter_py_total:
  assumes "\<forall>x\<in>set xs. \<exists>v. f x = Inr v"
  shows "filter_py f xs = Inr (filter (\<lambda>x. case f x of Inl e \<Rightarrow> False | Inr v \<Rightarrow> truthy v) xs)"
  using assms by (induction xs) auto

lemma get_score_total:
  assumes "\<forall>r\<in>set results. map_of r ''score'' \<noteq> None"
  shows "get_score results =
           Inr (length (filter (\<lambda>r. case map_of r ''score'' of
                                       None \<Rightarrow> False | Some v \<Rightarrow> truthy v) results))"
proof -
  have "\<forall>r\<in>set results. \<exists>v. getitem r ''score'' = Inr v"
    using assms by (auto simp: getitem_def)
  then have "filter_py (\<lambda>result. getitem result ''score'') results =
      Inr (filter (\<lambda>x. case getitem x ''score'' of Inl e \<Rightarrow> False | Inr v \<Rightarrow> truthy v) results)"
    by (rule filter_py_total)
  moreover have "(\<lambda>x. case getitem x ''score'' of Inl e \<Rightarrow> False | Inr v \<Rightarrow> truthy v) =
      (\<lambda>r. case map_of r ''score'' of None \<Rightarrow> False | Some v \<Rightarrow> truthy v)"
    by (auto simp: getitem_def fun_eq_iff split: option.splits)
  ultimately show ?thesis by (simp add: get_score_def)
qed

lemma truthy_number: "is_number v \<Longrightarrow> truthy v = (\<not> eq_zero v)"
  by (cases v) auto

text \<open>
  C7. \<open>get_score\<close> takes the result list and nothing else (no world goes in or comes
  out). On the empty list it is 0; on every list whose records carry a numeric score
  it is the count of records with nonzero score; and when every score is 0 or 1 it is
  the count of records with score 1.
\<close>

theorem get_score_counts_nonzero:
  "get_score [] = Inr 0 \<and>
   ((\<forall>r\<in>set results. \<exists>v. map_of r ''score'' = Some v \<and> is_number v) \<longrightarrow>
      get_score results = Inr (spec_nonzero_count results)) \<and>
   ((\<forall>r\<in>set results. map_of r ''score'' = Some (PInt 0) \<or> map_of r ''score'' = Some (PInt 1)) \<longrightarrow>
      get_score results = Inr (spec_ones_count results))"
proof (intro conjI impI)
  show "get_score [] = Inr 0" by (simp add: get_score_def)
next
  assume a: "\<forall>r\<in>set results. \<exists>v. map_of r ''score'' = Some v \<and> is_number v"
  then have "\<forall>r\<in>set results. map_of r ''score'' \<noteq> None" by auto
  then have "get_score results =
           Inr (length (filter (\<lambda>r. case map_of r ''score'' of
                                       None \<Rightarrow> False | Some v \<Rightarrow> truthy v) results))"
    by (rule get_score_total)
  moreover have "filter (\<lambda>r. case map_of r ''score'' of None \<Rightarrow> False | Some v \<Rightarrow> truthy v) results =
     filter (\<lambda>r. case map_of r ''score'' of None \<Rightarrow> False | Some v \<Rightarrow> \<not> eq_zero v) results"
    using a by (intro filter_cong) (auto simp: truthy_number)
  ultimately show "get_score results = Inr (spec_nonzero_count results)"
    by (simp add: spec_nonzero_count_def)
next
  assume a: "\<forall>r\<in>set results. map_of r ''score'' = Some (PInt 0) \<or> map_of r ''score'' = Some (PInt 1)"
  then have "\<forall>r\<in>set results. map_of r ''score'' \<noteq> None" by auto
  then have "get_score results =
           Inr (length (filter (\<lambda>r. case map_of r ''score'' of
                                       None \<Rightarrow> False | Some v \<Rightarrow> truthy v) results))"
    by (rule get_score_total)
  moreover have "filter (\<lambda>r. case map_of r ''score'' of None \<Rightarrow> False | Some v \<Rightarrow> truthy v) results =
     filter (\<lambda>r. case map_of r ''score'' of None \<Rightarrow> False | Some v \<Rightarrow> eq_one v) results"
    using a by (intro filter_cong) auto
  ultimately show "get_score results = Inr (spec_ones_count results)"
    by (simp add: spec_ones_count_def)
qed
theorem get_score_counts_nonzero_witness:
  "get_score example_results = Inr 2 \<and> spec_nonzero_count example_results = 2 \<and>
   spec_ones_count example_results = 2 \<and> list_all (\<lambda>r. map_of r ''score'' = Some (PInt 0) \<or> map_of r ''score'' = Some (PInt 1)) example_results"
proof -
  have h: "\<forall>r\<in>set example_results. map_of r ''score'' = Some (PInt 0) \<or> map_of r ''score'' = Some (PInt 1)"
    by (simp add: example_results_def)
  have n: "\<forall>r\<in>set example_results. \<exists>v. map_of r ''score'' = Some v \<and> is_number v"
    by (simp add: example_results_def)
  have c: "spec_nonzero_count example_results = 2" "spec_ones_count example_results = 2"
    by (simp_all add: example_results_def spec_nonzero_count_def spec_ones_count_def)
  show ?thesis
    using h n c get_score_counts_nonzero [of example_results]
    by (simp add: list_all_iff)
qed

section \<open>The whole suite\<close>

text \<open>
  Whether a test yields a score, an exception or nothing does not depend on the world
  it runs in, so the outcome of the comprehension can be read off test by test.
\<close>

lemma run_test_wrapper_never_returns:
  assumes "run_test_wrapper interpreter test_case timeout w = None"
  shows "survives_terminate interpreter test_case \<and>
         ending (run_test interpreter test_case []) = Never_ends"
proof (cases "getitem test_case ''srcfile''")
  case (Inl e)
  then show ?thesis using assms by (simp add: run_test_wrapper_def)
next
  case (Inr srcfile)
  have "run_test_in_process interpreter test_case timeout
          (py_print [Lit ''Running '', Fmt srcfile, Lit ''... ''] False w) = None"
    using assms Inr
    by (auto simp: run_test_wrapper_def split: option.splits sum.splits prod.splits if_splits)
  then show ?thesis by (simp add: supervisor_never_returns_iff)
qed

lemma run_test_wrapper_None_any_world:
  assumes "run_test_wrapper interpreter test_case timeout w = None"
  shows "run_test_wrapper interpreter test_case timeout w' = None"
  using assms run_test_wrapper_world_independent [of interpreter test_case timeout w w']
  by simp

lemma run_test_wrapper_fst_any_world:
  assumes "run_test_wrapper interpreter test_case timeout w = Some (r, w1)"
  shows "map_option fst (run_test_wrapper interpreter test_case timeout w') = Some r"
  using assms run_test_wrapper_world_independent [of interpreter test_case timeout w' w]
  by simp

lemma comprehension_zero_credit:
  assumes "\<forall>test\<in>set tests. map_of test ''name'' \<noteq> None"
  shows "comprehension interpreter timeout_per_test True tests w =
     Some (Inr (map (\<lambda>test. [(''name'', get_default test ''name'' PNone),
                         (''score'', PInt 0),
                         (''max_score'', PInt 1),
                         (''visibility'',
                            PStr (if truthy (get_default test ''visible'' (PBool False))
                                  then ''visible'' else ''after_published''))]) tests), w)"
  using assms
  by (induction tests) (auto simp: getitem_def get_default_def)

lemma comprehension_zero_credit_world:
  "\<exists>r. comprehension interpreter timeout_per_test True tests w = Some (r, w)"
proof (induction tests)
  case Nil
  then show ?case by simp
next
  case (Cons test tests)
  then obtain r where "comprehension interpreter timeout_per_test True tests w = Some (r, w)"
    by blast
  then show ?case
    by (cases r; cases "getitem test ''name''") simp_all
qed

lemma comprehension_Cons_Inr:
  assumes "comprehension interpreter timeout_per_test zero_credit (test # tests) w =
             Some (Inr results, w')"
  obtains name score w1 rest where
    "map_of test ''name'' = Some name"
    "(if \<not> zero_credit then run_test_wrapper interpreter test timeout_per_test w
      else Some (Inr 0, w)) = Some (Inr score, w1)"
    "comprehension interpreter timeout_per_test zero_credit tests w1 = Some (Inr rest, w')"
    "results = [(''name'', name), (''score'', PInt score), (''max_score'', PInt 1),
                (''visibility'',
                   PStr (if truthy (get_default test ''visible'' (PBool False))
                         then ''visible'' else ''after_published''))] # rest"
  using assms
  by (auto simp: getitem_def split: option.splits sum.splits prod.splits)


lemma comprehension_scores:
  assumes "comprehension interpreter timeout_per_test zero_credit tests w =
             Some (Inr results, w')"
  shows "\<forall>r\<in>set results.
     (map_of r ''score'' = Some (PInt 0) \<or> map_of r ''score'' = Some (PInt 1)) \<and>
     map_of r ''max_score'' = Some (PInt 1)"
  using assms
proof (induction tests arbitrary: w results)
  case Nil
  then show ?case by simp
next
  case (Cons test tests)
  from Cons.prems obtain name score w1 rest where
    step: "(if \<not> zero_credit then run_test_wrapper interpreter test timeout_per_test w
            else Some (Inr 0, w)) = Some (Inr score, w1)"
    and tl: "comprehension interpreter timeout_per_test zero_credit tests w1 =
               Some (Inr rest, w')"
    and res: "results = [(''name'', name), (''score'', PInt score), (''max_score'', PInt 1),
                (''visibility'',
                   PStr (if truthy (get_default test ''visible'' (PBool False))
                         then ''visible'' else ''after_published''))] # rest"
    by (rule comprehension_Cons_Inr)
  have "score = 0 \<or> score = 1"
  proof (cases zero_credit)
    case True
    then show ?thesis using step by simp
  next
    case False
    then have "run_test_wrapper interpreter test timeout_per_test w = Some (Inr score, w1)"
      using step by simp
    then show ?thesis by (rule run_test_wrapper_zero_or_one)
  qed
  then show ?case
    using Cons.IH [OF tl] res by auto
qed

lemma comprehension_never_returns:
  assumes "comprehension interpreter timeout_per_test zero_credit tests w = None"
  shows "\<not> zero_credit \<and>
         (\<exists>test\<in>set tests. \<forall>w'. run_test_wrapper interpreter test timeout_per_test w' = None)"
  using assms
proof (induction tests arbitrary: w)
  case Nil
  then show ?case by simp
next
  case (Cons test tests)
  show ?case
  proof (cases "(if \<not> zero_credit then run_test_wrapper interpreter test timeout_per_test w
                 else Some (Inr 0, w))")
    case None
    then have z: "\<not> zero_credit"
      and "run_test_wrapper interpreter test timeout_per_test w = None"
      by (auto split: if_splits)
    then have "\<forall>w'. run_test_wrapper interpreter test timeout_per_test w' = None"
      using run_test_wrapper_None_any_world by blast
    then show ?thesis using z by auto
  next
    case (Some a)
    obtain r w1 where a: "a = (r, w1)" by (cases a)
    have "comprehension interpreter timeout_per_test zero_credit tests w1 = None"
      using Cons.prems Some a
      by (auto split: option.splits sum.splits prod.splits if_splits)
    from Cons.IH [OF this] show ?thesis by auto
  qed
qed

lemma comprehension_raises:
  assumes "comprehension interpreter timeout_per_test zero_credit tests w = Some (Inl e, w')"
  shows "\<exists>test\<in>set tests.
           (map_of test ''name'' = None \<and> e = KeyError ''name'') \<or>
           (\<not> zero_credit \<and>
            (\<forall>w0. map_option fst (run_test_wrapper interpreter test timeout_per_test w0) =
                     Some (Inl e)))"
  using assms
proof (induction tests arbitrary: w)
  case Nil
  then show ?case by simp
next
  case (Cons test tests)
  show ?case
  proof (cases "map_of test ''name''")
    case None
    then have "e = KeyError ''name''"
      using Cons.prems by (simp add: getitem_def)
    then show ?thesis using None by auto
  next
    case (Some name)
    then have nm: "getitem test ''name'' = Inr name" by (simp add: getitem_def)
    show ?thesis
    proof (cases "(if \<not> zero_credit then run_test_wrapper interpreter test timeout_per_test w
                   else Some (Inr 0, w))")
      case None
      then show ?thesis using Cons.prems nm by simp
    next
      case step: (Some a)
      obtain r w1 where a: "a = (r, w1)" by (cases a)
      show ?thesis
      proof (cases r)
        case (Inl e')
        then have e: "e' = e" using Cons.prems nm step a by simp
        have z: "\<not> zero_credit" using step a Inl by (auto split: if_splits)
        then have "run_test_wrapper interpreter test timeout_per_test w = Some (Inl e, w1)"
          using step a Inl e by simp
        then have "\<forall>w0. map_option fst (run_test_wrapper interpreter test timeout_per_test w0) =
                     Some (Inl e)"
          using run_test_wrapper_fst_any_world by blast
        then show ?thesis using z by auto
      next
        case (Inr score)
        have "comprehension interpreter timeout_per_test zero_credit tests w1 = Some (Inl e, w')"
          using Cons.prems nm step a Inr
          by (auto split: option.splits sum.splits prod.splits)
        from Cons.IH [OF this] show ?thesis by auto
      qed
    qed
  qed
qed


lemma run_all_tests_cases:
  fixes interpreter tests timeout_per_test zero_credit w
  defines "c \<equiv> comprehension interpreter timeout_per_test zero_credit tests
          (py_print [Lit ''Running '', Fmt (PInt (int (length tests))), Lit '' tests...'']
             True w)"
  shows "c = None \<Longrightarrow>
           run_all_tests interpreter tests timeout_per_test zero_credit w = None"
    and "c = Some (Inl e, w1) \<Longrightarrow>
           run_all_tests interpreter tests timeout_per_test zero_credit w = Some (Inl e, w1)"
    and "c = Some (Inr results, w1) \<Longrightarrow>
           \<exists>w2. run_all_tests interpreter tests timeout_per_test zero_credit w =
                  Some (Inr results, w2)"
proof -
  show "c = None \<Longrightarrow>
           run_all_tests interpreter tests timeout_per_test zero_credit w = None"
    by (simp add: run_all_tests_def c_def)
  show "c = Some (Inl e, w1) \<Longrightarrow>
           run_all_tests interpreter tests timeout_per_test zero_credit w = Some (Inl e, w1)"
    by (simp add: run_all_tests_def c_def)
  show "\<exists>w2. run_all_tests interpreter tests timeout_per_test zero_credit w =
                  Some (Inr results, w2)"
    if r: "c = Some (Inr results, w1)"
  proof -
    have "\<forall>r\<in>set results. map_of r ''score'' \<noteq> None"
      using comprehension_scores r unfolding c_def by fastforce
    then obtain n where "get_score results = Inr n"
      using get_score_total by blast
    then show ?thesis
      using r by (simp add: run_all_tests_def c_def)
  qed
qed

lemma run_all_tests_inversion:
  fixes interpreter tests timeout_per_test zero_credit w
  defines "c \<equiv> comprehension interpreter timeout_per_test zero_credit tests
          (py_print [Lit ''Running '', Fmt (PInt (int (length tests))), Lit '' tests...'']
             True w)"
  shows "run_all_tests interpreter tests timeout_per_test zero_credit w = None \<Longrightarrow> c = None"
    and "run_all_tests interpreter tests timeout_per_test zero_credit w = Some (Inl e, w1) \<Longrightarrow>
           c = Some (Inl e, w1)"
    and "run_all_tests interpreter tests timeout_per_test zero_credit w = Some (Inr results, w1) \<Longrightarrow>
           \<exists>w2. c = Some (Inr results, w2)"
proof -
  have cases: "c = None \<or> (\<exists>e' w'. c = Some (Inl e', w')) \<or> (\<exists>rs w'. c = Some (Inr rs, w'))"
  proof (cases c)
    case None
    then show ?thesis by simp
  next
    case (Some a)
    obtain r w' where "a = (r, w')" by (cases a)
    then show ?thesis using Some by (cases r) simp_all
  qed
  show "run_all_tests interpreter tests timeout_per_test zero_credit w = None \<Longrightarrow> c = None"
    using cases run_all_tests_cases [of interpreter timeout_per_test zero_credit tests w]
    unfolding c_def by fastforce
  show "run_all_tests interpreter tests timeout_per_test zero_credit w = Some (Inl e, w1) \<Longrightarrow>
           c = Some (Inl e, w1)"
    using cases run_all_tests_cases [of interpreter timeout_per_test zero_credit tests w]
    unfolding c_def by fastforce
  show "run_all_tests interpreter tests timeout_per_test zero_credit w = Some (Inr results, w1) \<Longrightarrow>
           \<exists>w2. c = Some (Inr results, w2)"
    using cases run_all_tests_cases [of interpreter timeout_per_test zero_credit tests w]
    unfolding c_def by fastforce
qed



lemma processes_py_print: "processes (py_print ps newline w) = processes w"
  by (simp add: py_print_def)

lemma run_all_tests_zero_credit_processes:
  "\<exists>r w'. run_all_tests interpreter tests timeout_per_test True w = Some (r, w') \<and>
          processes w' = processes w"
proof -
  let ?w0 = "py_print [Lit ''Running '', Fmt (PInt (int (length tests))), Lit '' tests...'']
               True w"
  obtain r where c: "comprehension interpreter timeout_per_test True tests ?w0 = Some (r, ?w0)"
    using comprehension_zero_credit_world by blast
  show ?thesis
    using c
    by (cases r) (auto simp: run_all_tests_def processes_py_print split: sum.splits)
qed

lemma get_score_all_zero:
  assumes "\<forall>r\<in>set results. map_of r ''score'' = Some (PInt 0)"
  shows "get_score results = Inr 0"
proof -
  have "\<forall>r\<in>set results. map_of r ''score'' \<noteq> None" using assms by simp
  then have "get_score results =
           Inr (length (filter (\<lambda>r. case map_of r ''score'' of
                                       None \<Rightarrow> False | Some v \<Rightarrow> truthy v) results))"
    by (rule get_score_total)
  moreover have "filter (\<lambda>r. case map_of r ''score'' of
                                None \<Rightarrow> False | Some v \<Rightarrow> truthy v) results = []"
    using assms by (simp add: filter_empty_conv)
  ultimately show ?thesis by simp
qed

text \<open>
  C6. With \<open>zero_credit\<close> set, \<open>run_all_tests\<close> returns and makes no call on any
  process, whatever the tests and the scaffold are; when every test has a \<^verbatim>\<open>name\<close> it
  returns one record per test, each with score 0, and all it prints is the header and
  the summary \<^verbatim>\<open>0/n tests passed.\<close>: no \<^verbatim>\<open>Running ...\<close> line of the per-test wrapper.
\<close>

theorem zero_credit_skips_execution:
  "(\<exists>r w'. run_all_tests interpreter tests timeout_per_test True w = Some (r, w') \<and>
           processes w' = processes w) \<and>
   ((\<forall>test\<in>set tests. map_of test ''name'' \<noteq> None) \<longrightarrow>
      (\<exists>results.
         run_all_tests interpreter tests timeout_per_test True w =
           Some (Inr results,
            py_print [Fmt (PInt 0), Lit ''/'', Fmt (PInt (int (length tests))),
                      Lit '' tests passed.''] True
              (py_print [Lit ''Running '', Fmt (PInt (int (length tests))),
                         Lit '' tests...''] True w)) \<and>
         length results = length tests \<and>
         (\<forall>r\<in>set results. getitem r ''score'' = Inr (PInt 0))))"
proof (intro conjI impI)
  show "\<exists>r w'. run_all_tests interpreter tests timeout_per_test True w = Some (r, w') \<and>
           processes w' = processes w"
    by (rule run_all_tests_zero_credit_processes)
next
  assume names: "\<forall>test\<in>set tests. map_of test ''name'' \<noteq> None"
  let ?f = "\<lambda>test. [(''name'', get_default test ''name'' PNone),
                     (''score'', PInt 0),
                     (''max_score'', PInt 1),
                     (''visibility'',
                        PStr (if truthy (get_default test ''visible'' (PBool False))
                              then ''visible'' else ''after_published''))]"
  have z: "\<forall>r\<in>set (map ?f tests). map_of r ''score'' = Some (PInt 0)"
    by simp
  have g: "get_score (map ?f tests) = Inr 0"
    using z by (rule get_score_all_zero)
  have "run_all_tests interpreter tests timeout_per_test True w =
           Some (Inr (map ?f tests),
            py_print [Fmt (PInt 0), Lit ''/'', Fmt (PInt (int (length tests))),
                      Lit '' tests passed.''] True
              (py_print [Lit ''Running '', Fmt (PInt (int (length tests))),
                         Lit '' tests...''] True w))"
    by (simp add: run_all_tests_def comprehension_zero_credit [OF names] g)
  moreover have "\<forall>r\<in>set (map ?f tests). getitem r ''score'' = Inr (PInt 0)"
    by (simp add: getitem_def)
  ultimately show "\<exists>results.
         run_all_tests interpreter tests timeout_per_test True w =
           Some (Inr results,
            py_print [Fmt (PInt 0), Lit ''/'', Fmt (PInt (int (length tests))),
                      Lit '' tests passed.''] True
              (py_print [Lit ''Running '', Fmt (PInt (int (length tests))),
                         Lit '' tests...''] True w)) \<and>
         length results = length tests \<and>
         (\<forall>r\<in>set results. getitem r ''score'' = Inr (PInt 0))"
    by (intro exI [of _ "map ?f tests"]) simp
qed

theorem zero_credit_skips_execution_witness:
  "list_all (\<lambda>test. map_of test ''name'' \<noteq> None) example_tests \<and>
   (\<exists>results w'.
      run_all_tests stubborn example_tests 5 True empty_world = Some (Inr results, w') \<and>
      processes w' = [] \<and>
      stdout w' =
        [Lit ''Running '', Fmt (PInt 2), Lit '' tests...'', Newline,
         Fmt (PInt 0), Lit ''/'', Fmt (PInt 2), Lit '' tests passed.'', Newline] \<and>
      length results = 2 \<and>
      list_all (\<lambda>r. getitem r ''score'' = Inr (PInt 0)) results)"
proof -
  have h: "\<forall>test\<in>set example_tests. map_of test ''name'' \<noteq> None"
    by (simp add: example_tests_def)
  have l: "length example_tests = 2"
    by (simp add: example_tests_def)
  from zero_credit_skips_execution [of stubborn example_tests 5 empty_world, THEN conjunct2] h
  obtain results where
    r: "run_all_tests stubborn example_tests 5 True empty_world =
           Some (Inr results,
            py_print [Fmt (PInt 0), Lit ''/'', Fmt (PInt (int (length example_tests))),
                      Lit '' tests passed.''] True
              (py_print [Lit ''Running '', Fmt (PInt (int (length example_tests))),
                         Lit '' tests...''] True empty_world))"
    and len: "length results = length example_tests"
    and z: "\<forall>r\<in>set results. getitem r ''score'' = Inr (PInt 0)"
    by blast
  show ?thesis
    using h r len z l
    by (auto simp: list_all_iff py_print_def empty_world_def)
qed

lemma run_test_wrapper_raises:
  assumes "run_test_wrapper interpreter test_case timeout w = Some (Inl e, w')"
  shows "(e = KeyError ''srcfile'' \<and> map_of test_case ''srcfile'' = None) \<or>
         (\<exists>d environment d' result.
            setup_method interpreter test_case = Returns d environment \<and>
            run_test_case interpreter test_case environment = Returns d' result \<and>
            int (d + d') \<le> timeout \<and>
            (delivery interpreter result = Arrives_broken e \<or>
             delivery interpreter result = Arrives \<and> match_one result = Inl e))"
proof (cases "map_of test_case ''srcfile''")
  case None
  then show ?thesis using assms by (simp add: run_test_wrapper_keyerror)
next
  case (Some srcfile)
  then have s: "getitem test_case ''srcfile'' = Inr srcfile" by (simp add: getitem_def)
  have "map_option fst (run_test_wrapper interpreter test_case timeout w) = Some (Inl e)"
    using assms by simp
  then show ?thesis
    unfolding run_test_wrapper_result [OF s]
    by (auto split: call.splits delivery.splits sum.splits if_splits)
qed

text \<open>
  C10. Whatever the scaffold returns, a score the wrapper returns is 0 or 1, and every
  record \<open>run_all_tests\<close> returns has score 0 or 1 and \<^verbatim>\<open>max_score\<close> 1. The other
  outcomes are accounted for: the wrapper returns nothing only for a worker that never
  ends and survives \<^verbatim>\<open>SIGTERM\<close>, and raises only for a missing \<^verbatim>\<open>srcfile\<close> or an
  object that cannot be rebuilt or compared; the suite returns no records only when a
  test lacks its \<^verbatim>\<open>name\<close> or the wrapper returns no score for a test.
\<close>

theorem scores_are_zero_or_one:
  "(case run_test_wrapper interpreter test_case timeout w of
      None \<Rightarrow>
        survives_terminate interpreter test_case \<and>
        ending (run_test interpreter test_case []) = Never_ends
    | Some (Inl e, w') \<Rightarrow>
        (e = KeyError ''srcfile'' \<and> map_of test_case ''srcfile'' = None) \<or>
        (\<exists>d environment d' result.
           setup_method interpreter test_case = Returns d environment \<and>
           run_test_case interpreter test_case environment = Returns d' result \<and>
           int (d + d') \<le> timeout \<and>
           (delivery interpreter result = Arrives_broken e \<or>
            delivery interpreter result = Arrives \<and> match_one result = Inl e))
    | Some (Inr s, w') \<Rightarrow> s = 0 \<or> s = 1) \<and>
   (case run_all_tests interpreter tests timeout zero_credit w of
      None \<Rightarrow>
        \<not> zero_credit \<and>
        (\<exists>test\<in>set tests. \<forall>w'. run_test_wrapper interpreter test timeout w' = None)
    | Some (Inl e, w1) \<Rightarrow>
        \<exists>test\<in>set tests.
          (map_of test ''name'' = None \<and> e = KeyError ''name'') \<or>
          (\<not> zero_credit \<and>
           (\<forall>w'. map_option fst (run_test_wrapper interpreter test timeout w') = Some (Inl e)))
    | Some (Inr results, w1) \<Rightarrow>
        \<forall>r\<in>set results.
          (getitem r ''score'' = Inr (PInt 0) \<or> getitem r ''score'' = Inr (PInt 1)) \<and>
          getitem r ''max_score'' = Inr (PInt 1))"
proof (intro conjI)
  show "case run_test_wrapper interpreter test_case timeout w of
      None \<Rightarrow>
        survives_terminate interpreter test_case \<and>
        ending (run_test interpreter test_case []) = Never_ends
    | Some (Inl e, w') \<Rightarrow>
        (e = KeyError ''srcfile'' \<and> map_of test_case ''srcfile'' = None) \<or>
        (\<exists>d environment d' result.
           setup_method interpreter test_case = Returns d environment \<and>
           run_test_case interpreter test_case environment = Returns d' result \<and>
           int (d + d') \<le> timeout \<and>
           (delivery interpreter result = Arrives_broken e \<or>
            delivery interpreter result = Arrives \<and> match_one result = Inl e))
    | Some (Inr s, w') \<Rightarrow> s = 0 \<or> s = 1"
  proof (cases "run_test_wrapper interpreter test_case timeout w")
    case None
    then show ?thesis using run_test_wrapper_never_returns [OF None] by simp
  next
    case (Some a)
    obtain r w' where a: "a = (r, w')" by (cases a)
    show ?thesis
    proof (cases r)
      case (Inl e)
      then have "run_test_wrapper interpreter test_case timeout w = Some (Inl e, w')"
        using Some a by simp
      from run_test_wrapper_raises [OF this] show ?thesis
        using Some a Inl by simp
    next
      case (Inr s)
      then have "run_test_wrapper interpreter test_case timeout w = Some (Inr s, w')"
        using Some a by simp
      from run_test_wrapper_zero_or_one [OF this] show ?thesis
        using Some a Inr by simp
    qed
  qed
next
  let ?c = "comprehension interpreter timeout zero_credit tests
          (py_print [Lit ''Running '', Fmt (PInt (int (length tests))), Lit '' tests...'']
             True w)"
  show "case run_all_tests interpreter tests timeout zero_credit w of
      None \<Rightarrow>
        \<not> zero_credit \<and>
        (\<exists>test\<in>set tests. \<forall>w'. run_test_wrapper interpreter test timeout w' = None)
    | Some (Inl e, w1) \<Rightarrow>
        \<exists>test\<in>set tests.
          (map_of test ''name'' = None \<and> e = KeyError ''name'') \<or>
          (\<not> zero_credit \<and>
           (\<forall>w'. map_option fst (run_test_wrapper interpreter test timeout w') = Some (Inl e)))
    | Some (Inr results, w1) \<Rightarrow>
        \<forall>r\<in>set results.
          (getitem r ''score'' = Inr (PInt 0) \<or> getitem r ''score'' = Inr (PInt 1)) \<and>
          getitem r ''max_score'' = Inr (PInt 1)"
  proof (cases "run_all_tests interpreter tests timeout zero_credit w")
    case None
    then have "?c = None" by (rule run_all_tests_inversion(1))
    from comprehension_never_returns [OF this] show ?thesis using None by simp
  next
    case (Some a)
    obtain r w1 where a: "a = (r, w1)" by (cases a)
    show ?thesis
    proof (cases r)
      case (Inl e)
      then have "run_all_tests interpreter tests timeout zero_credit w = Some (Inl e, w1)"
        using Some a by simp
      then have "?c = Some (Inl e, w1)" by (rule run_all_tests_inversion(2))
      from comprehension_raises [OF this] show ?thesis using Some a Inl by simp
    next
      case (Inr results)
      then have "run_all_tests interpreter tests timeout zero_credit w = Some (Inr results, w1)"
        using Some a by simp
      then obtain w2 where "?c = Some (Inr results, w2)"
        using run_all_tests_inversion(3) by blast
      from comprehension_scores [OF this] have "\<forall>r\<in>set results.
          (getitem r ''score'' = Inr (PInt 0) \<or> getitem r ''score'' = Inr (PInt 1)) \<and>
          getitem r ''max_score'' = Inr (PInt 1)"
        by (auto simp: getitem_def)
      then show ?thesis using Some a Inr by simp
    qed
  qed
qed

theorem scores_are_zero_or_one_witness:
  "map_option fst (run_test_wrapper (returning (PInt 2)) example_test 5 empty_world) =
     Some (Inr 0) \<and>
   map_option fst (run_test_wrapper (returning (PStr ''ok'')) example_test 5 empty_world) =
     Some (Inr 0) \<and>
   map_option fst (run_test_wrapper (returning (PFloat (1 / 2))) example_test 5 empty_world) =
     Some (Inr 0) \<and>
   (\<exists>results w1.
      run_all_tests (returning (PInt 2)) example_tests 5 False empty_world =
        Some (Inr results, w1) \<and>
      list_all (\<lambda>r. (getitem r ''score'' = Inr (PInt 0) \<or> getitem r ''score'' = Inr (PInt 1)) \<and>
                     getitem r ''max_score'' = Inr (PInt 1)) results)"
proof -
  have s: "getitem example_test ''srcfile'' = Inr (PStr ''a.py'')"
    by (simp add: getitem_def example_test_def)
  have w: "map_option fst (run_test_wrapper (returning (PInt 2)) example_test 5 empty_world) =
             Some (Inr 0)"
    "map_option fst (run_test_wrapper (returning (PStr ''ok'')) example_test 5 empty_world) =
       Some (Inr 0)"
    "map_option fst (run_test_wrapper (returning (PFloat (1 / 2))) example_test 5 empty_world) =
       Some (Inr 0)"
    by (simp_all add: run_test_wrapper_result [OF s] returning_def)
  have r: "\<exists>results w1.
      run_all_tests (returning (PInt 2)) example_tests 5 False empty_world =
        Some (Inr results, w1)"
    by (simp add: run_all_tests_def run_test_wrapper_def run_test_in_process_def run_test_def
        is_alive_def Let_def returning_def example_tests_def getitem_def get_score_def)
  then obtain results w1 where
    r: "run_all_tests (returning (PInt 2)) example_tests 5 False empty_world =
        Some (Inr results, w1)"
    by blast
  show ?thesis
    using w r scores_are_zero_or_one
      [where interpreter = "returning (PInt 2)" and test_case = example_test
         and timeout = 5 and w = empty_world and tests = example_tests
         and zero_credit = False, THEN conjunct2]
    by (auto simp: list_all_iff)
qed

section \<open>The report\<close>

lemma write_gradescope_output_ok:
  assumes "serializable (format_gradescope_output score)"
    and "files w (if is_prod then ''/autograder/results'' else ''.'') = None"
    and "(if is_prod then ''/autograder/results'' else ''.'') @ ''/results.json'' \<notin> dirs w"
  shows "fst (write_gradescope_output score is_prod w) = Inr ()"
    and "files (snd (write_gradescope_output score is_prod w)) =
           (files w)((if is_prod then ''/autograder/results'' else ''.'') @ ''/results.json''
                       \<mapsto> Json (format_gradescope_output score))"
  using assms
  by (auto simp: write_gradescope_output_def Let_def exists_def makedirs_def py_print_def)

lemma serializable_format:
  "serializable (format_gradescope_output score) = serializable score"
  by (cases score) (simp_all add: format_gradescope_output_def)

lemma write_gradescope_output_at:
  assumes "serializable score"
    and "files w (if is_prod then ''/autograder/results'' else ''.'') = None"
    and "(if is_prod then ''/autograder/results/results.json'' else ''./results.json'') \<notin> dirs w"
  shows "fst (write_gradescope_output score is_prod w) = Inr () \<and>
         files (snd (write_gradescope_output score is_prod w)) =
           (files w)((if is_prod then ''/autograder/results/results.json'' else ''./results.json'')
                       \<mapsto> Json (format_gradescope_output score))"
proof -
  have s: "serializable (format_gradescope_output score)"
    using assms(1) by (simp add: serializable_format)
  have d: "(if is_prod then ''/autograder/results'' else ''.'') @ ''/results.json'' \<notin> dirs w"
    using assms(3) by (cases is_prod) simp_all
  show ?thesis
    using write_gradescope_output_ok [OF s assms(2) d] by (cases is_prod) simp_all
qed

text \<open>
  C8. Every number (an integer, a finite float, NaN, an infinity, a boolean) is
  formatted as \<^verbatim>\<open>{"score": value}\<close>, every other value (a list, a tuple, a dictionary,
  a string, \<^verbatim>\<open>None\<close>, any other object) as \<^verbatim>\<open>{"tests": value}\<close>. When neither the
  directory's path is taken by a regular file nor the target's by a directory, the
  writer returns normally for every number, for every list \<^verbatim>\<open>json.dump\<close> accepts, and
  for every other value it accepts, and changes one file only:
  \<^verbatim>\<open>/autograder/results/results.json\<close> when \<open>is_prod\<close> holds, \<^verbatim>\<open>./results.json\<close>
  otherwise, which then holds the formatted value.
\<close>

theorem report_shape_and_location:
  "format_gradescope_output (PInt i) = PDict [(''score'', PInt i)] \<and>
   format_gradescope_output (PFloat q) = PDict [(''score'', PFloat q)] \<and>
   format_gradescope_output PNan = PDict [(''score'', PNan)] \<and>
   format_gradescope_output (PInf negative) = PDict [(''score'', PInf negative)] \<and>
   format_gradescope_output (PBool b) = PDict [(''score'', PBool b)] \<and>
   format_gradescope_output (PList xs) = PDict [(''tests'', PList xs)] \<and>
   format_gradescope_output (PTuple xs) = PDict [(''tests'', PTuple xs)] \<and>
   format_gradescope_output (PDict kvs) = PDict [(''tests'', PDict kvs)] \<and>
   format_gradescope_output (PStr s) = PDict [(''tests'', PStr s)] \<and>
   format_gradescope_output PNone = PDict [(''tests'', PNone)] \<and>
   format_gradescope_output (POpaque t c) = PDict [(''tests'', POpaque t c)] \<and>
   ((score = PInt i \<or> score = PFloat q \<or> score = PNan \<or> score = PInf negative \<or>
     score = PBool b) \<and>
    files w (if is_prod then ''/autograder/results'' else ''.'') = None \<and>
    (if is_prod then ''/autograder/results/results.json'' else ''./results.json'') \<notin> dirs w \<longrightarrow>
      fst (write_gradescope_output score is_prod w) = Inr () \<and>
      files (snd (write_gradescope_output score is_prod w)) =
        (files w)((if is_prod then ''/autograder/results/results.json'' else ''./results.json'')
                    \<mapsto> Json (PDict [(''score'', score)]))) \<and>
   (serializable (PList xs) \<and>
    files w (if is_prod then ''/autograder/results'' else ''.'') = None \<and>
    (if is_prod then ''/autograder/results/results.json'' else ''./results.json'') \<notin> dirs w \<longrightarrow>
      fst (write_gradescope_output (PList xs) is_prod w) = Inr () \<and>
      files (snd (write_gradescope_output (PList xs) is_prod w)) =
        (files w)((if is_prod then ''/autograder/results/results.json'' else ''./results.json'')
                    \<mapsto> Json (PDict [(''tests'', PList xs)]))) \<and>
   (serializable score \<and>
    files w (if is_prod then ''/autograder/results'' else ''.'') = None \<and>
    (if is_prod then ''/autograder/results/results.json'' else ''./results.json'') \<notin> dirs w \<longrightarrow>
      fst (write_gradescope_output score is_prod w) = Inr () \<and>
      files (snd (write_gradescope_output score is_prod w)) =
        (files w)((if is_prod then ''/autograder/results/results.json'' else ''./results.json'')
                    \<mapsto> Json (format_gradescope_output score)))"
proof -
  have shape:
    "format_gradescope_output (PInt i) = PDict [(''score'', PInt i)]"
    "format_gradescope_output (PFloat q) = PDict [(''score'', PFloat q)]"
    "format_gradescope_output PNan = PDict [(''score'', PNan)]"
    "format_gradescope_output (PInf negative) = PDict [(''score'', PInf negative)]"
    "format_gradescope_output (PBool b) = PDict [(''score'', PBool b)]"
    "format_gradescope_output (PList xs) = PDict [(''tests'', PList xs)]"
    "format_gradescope_output (PTuple xs) = PDict [(''tests'', PTuple xs)]"
    "format_gradescope_output (PDict kvs) = PDict [(''tests'', PDict kvs)]"
    "format_gradescope_output (PStr s) = PDict [(''tests'', PStr s)]"
    "format_gradescope_output PNone = PDict [(''tests'', PNone)]"
    "format_gradescope_output (POpaque t c) = PDict [(''tests'', POpaque t c)]"
    by (simp_all add: format_gradescope_output_def)
  have number: "fst (write_gradescope_output score is_prod w) = Inr () \<and>
      files (snd (write_gradescope_output score is_prod w)) =
        (files w)((if is_prod then ''/autograder/results/results.json'' else ''./results.json'')
                    \<mapsto> Json (PDict [(''score'', score)]))"
    if n: "score = PInt i \<or> score = PFloat q \<or> score = PNan \<or> score = PInf negative \<or>
           score = PBool b"
      and f: "files w (if is_prod then ''/autograder/results'' else ''.'') = None"
      and d: "(if is_prod then ''/autograder/results/results.json'' else ''./results.json'')
                \<notin> dirs w"
  proof -
    have s: "serializable score" using n by auto
    have fm: "format_gradescope_output score = PDict [(''score'', score)]"
      using n shape by auto
    show ?thesis
      using write_gradescope_output_at [OF s f d] unfolding fm .
  qed
  have collection: "fst (write_gradescope_output (PList xs) is_prod w) = Inr () \<and>
      files (snd (write_gradescope_output (PList xs) is_prod w)) =
        (files w)((if is_prod then ''/autograder/results/results.json'' else ''./results.json'')
                    \<mapsto> Json (PDict [(''tests'', PList xs)]))"
    if s: "serializable (PList xs)"
      and f: "files w (if is_prod then ''/autograder/results'' else ''.'') = None"
      and d: "(if is_prod then ''/autograder/results/results.json'' else ''./results.json'')
                \<notin> dirs w"
    using write_gradescope_output_at [OF s f d] unfolding shape .
  have general: "fst (write_gradescope_output score is_prod w) = Inr () \<and>
      files (snd (write_gradescope_output score is_prod w)) =
        (files w)((if is_prod then ''/autograder/results/results.json'' else ''./results.json'')
                    \<mapsto> Json (format_gradescope_output score))"
    if s: "serializable score"
      and f: "files w (if is_prod then ''/autograder/results'' else ''.'') = None"
      and d: "(if is_prod then ''/autograder/results/results.json'' else ''./results.json'')
                \<notin> dirs w"
    by (rule write_gradescope_output_at [OF s f d])
  from number have number':
    "(score = PInt i \<or> score = PFloat q \<or> score = PNan \<or> score = PInf negative \<or>
     score = PBool b) \<and>
    files w (if is_prod then ''/autograder/results'' else ''.'') = None \<and>
    (if is_prod then ''/autograder/results/results.json'' else ''./results.json'') \<notin> dirs w \<longrightarrow>
      fst (write_gradescope_output score is_prod w) = Inr () \<and>
      files (snd (write_gradescope_output score is_prod w)) =
        (files w)((if is_prod then ''/autograder/results/results.json'' else ''./results.json'')
                    \<mapsto> Json (PDict [(''score'', score)]))"
    by (intro impI) (elim conjE)
  from collection have collection':
    "serializable (PList xs) \<and>
    files w (if is_prod then ''/autograder/results'' else ''.'') = None \<and>
    (if is_prod then ''/autograder/results/results.json'' else ''./results.json'') \<notin> dirs w \<longrightarrow>
      fst (write_gradescope_output (PList xs) is_prod w) = Inr () \<and>
      files (snd (write_gradescope_output (PList xs) is_prod w)) =
        (files w)((if is_prod then ''/autograder/results/results.json'' else ''./results.json'')
                    \<mapsto> Json (PDict [(''tests'', PList xs)]))"
    by (intro impI) (elim conjE)
  from general have general':
    "serializable score \<and>
    files w (if is_prod then ''/autograder/results'' else ''.'') = None \<and>
    (if is_prod then ''/autograder/results/results.json'' else ''./results.json'') \<notin> dirs w \<longrightarrow>
      fst (write_gradescope_output score is_prod w) = Inr () \<and>
      files (snd (write_gradescope_output score is_prod w)) =
        (files w)((if is_prod then ''/autograder/results/results.json'' else ''./results.json'')
                    \<mapsto> Json (format_gradescope_output score))"
    by (intro impI) (elim conjE)
  show ?thesis
    by (intro conjI shape number' collection' general')
qed

theorem report_shape_and_location_witness:
  "files (snd (write_gradescope_output (PInt 7) True empty_world))
     ''/autograder/results/results.json'' = Some (Json (PDict [(''score'', PInt 7)])) \<and>
   files (snd (write_gradescope_output (PInt 7) True empty_world)) ''./results.json'' = None \<and>
   files (snd (write_gradescope_output PNan False empty_world)) ''./results.json'' =
     Some (Json (PDict [(''score'', PNan)])) \<and>
   files (snd (write_gradescope_output (PFloat (1 / 2)) False empty_world)) ''./results.json'' =
     Some (Json (PDict [(''score'', PFloat (1 / 2))])) \<and>
   files (snd (write_gradescope_output (PBool True) False empty_world)) ''./results.json'' =
     Some (Json (PDict [(''score'', PBool True)])) \<and>
   files (snd (write_gradescope_output (PList (map PDict example_results)) False empty_world))
     ''./results.json'' = Some (Json (PDict [(''tests'', PList (map PDict example_results))])) \<and>
   fst (write_gradescope_output (PList (map PDict example_results)) False empty_world) = Inr ()"
proof -
  have s: "serializable (PList (map PDict example_results))"
    by (simp add: example_results_def)
  have f: "files empty_world p = None" "dirs empty_world = {''.''}" for p
    by (simp_all add: empty_world_def)
  note t = report_shape_and_location [THEN conjunct2, THEN conjunct2, THEN conjunct2,
      THEN conjunct2, THEN conjunct2, THEN conjunct2, THEN conjunct2, THEN conjunct2,
      THEN conjunct2, THEN conjunct2, THEN conjunct2]
  show ?thesis
    using s f
      t [THEN conjunct1, of "PInt 7" 7 _ _ _ empty_world True]
      t [THEN conjunct1, of PNan _ _ _ _ empty_world False]
      t [THEN conjunct1, of "PFloat (1 / 2)" _ "1 / 2" _ _ empty_world False]
      t [THEN conjunct1, of "PBool True" _ _ _ True empty_world False]
      t [THEN conjunct2, THEN conjunct1, of "map PDict example_results" empty_world False]
    by simp
qed

text \<open>
  C9. For every message string, \<open>write_gradescope_output_failure\<close> is
  \<open>write_gradescope_output\<close> applied to the list of the one record with score 0, status
  \<^verbatim>\<open>failed\<close>, name \<^verbatim>\<open>Pre-launch check\<close> and the message as output; the file written holds
  that list under the key \<^verbatim>\<open>tests\<close>.
\<close>

theorem failure_report_single_record:
  "write_gradescope_output_failure (PStr message) is_prod w =
     write_gradescope_output
       (PList [PDict [(''score'', PInt 0), (''status'', PStr ''failed''),
                      (''name'', PStr ''Pre-launch check''), (''output'', PStr message)]])
       is_prod w \<and>
   (files w (if is_prod then ''/autograder/results'' else ''.'') = None \<and>
    (if is_prod then ''/autograder/results/results.json'' else ''./results.json'') \<notin> dirs w \<longrightarrow>
      fst (write_gradescope_output_failure (PStr message) is_prod w) = Inr () \<and>
      files (snd (write_gradescope_output_failure (PStr message) is_prod w)) =
        (files w)((if is_prod then ''/autograder/results/results.json'' else ''./results.json'')
           \<mapsto> Json (PDict [(''tests'',
                    PList [PDict [(''score'', PInt 0), (''status'', PStr ''failed''),
                                  (''name'', PStr ''Pre-launch check''),
                                  (''output'', PStr message)]])])))"
proof (intro conjI impI)
  let ?results = "PList [PDict [(''score'', PInt 0), (''status'', PStr ''failed''),
                      (''name'', PStr ''Pre-launch check''), (''output'', PStr message)]]"
  show eq: "write_gradescope_output_failure (PStr message) is_prod w =
     write_gradescope_output ?results is_prod w"
    by (simp add: write_gradescope_output_failure_def)
  assume a: "files w (if is_prod then ''/autograder/results'' else ''.'') = None \<and>
    (if is_prod then ''/autograder/results/results.json'' else ''./results.json'') \<notin> dirs w"
  have fm: "format_gradescope_output ?results = PDict [(''tests'', ?results)]"
    by (simp add: format_gradescope_output_def)
  have s: "serializable (format_gradescope_output ?results)"
    unfolding fm by simp
  have f: "files w (if is_prod then ''/autograder/results'' else ''.'') = None"
    using a by simp
  have d: "(if is_prod then ''/autograder/results'' else ''.'') @ ''/results.json'' \<notin> dirs w"
    using a by (cases is_prod) simp_all
  show "fst (write_gradescope_output_failure (PStr message) is_prod w) = Inr ()"
    unfolding eq by (rule write_gradescope_output_ok(1) [OF s f d])
  show "files (snd (write_gradescope_output_failure (PStr message) is_prod w)) =
        (files w)((if is_prod then ''/autograder/results/results.json'' else ''./results.json'')
           \<mapsto> Json (PDict [(''tests'', ?results)]))"
    unfolding eq using write_gradescope_output_ok(2) [OF s f d] fm
    by (cases is_prod) simp_all
qed

theorem failure_report_single_record_witness:
  "fst (write_gradescope_output_failure (PStr ''syntax error'') False empty_world) = Inr () \<and>
   files (snd (write_gradescope_output_failure (PStr ''syntax error'') False empty_world))
     ''./results.json'' =
     Some (Json (PDict [(''tests'',
             PList [PDict [(''score'', PInt 0), (''status'', PStr ''failed''),
                           (''name'', PStr ''Pre-launch check''),
                           (''output'', PStr ''syntax error'')]])]))"
proof -
  have f: "files empty_world p = None" "dirs empty_world = {''.''}" for p
    by (simp_all add: empty_world_def)
  show ?thesis
    using f failure_report_single_record [of "''syntax error''" False empty_world, THEN conjunct2]
    by simp
qed

end
